theory Spec2Isabelle
  imports Main "HOL-Library.Sublist"
begin

section \<open>The worker manager of \<open>ts/model_service_worker_manager.py\<close>\<close>

text \<open>
  The manager is a Python class whose methods mutate \<open>self.workers\<close> and talk to the
  operating system (files, processes, a socket) and to collaborators that live outside
  this file (the model loader, the worker class, the message codec).  The embedding keeps
  the manager's own control flow and makes everything else explicit:
  \<^item> Python values that travel in a request are a small datatype;
  \<^item> every exception is a value of \<open>exn\<close>, and every method returns \<open>exn + result\<close>;
  \<^item> \<open>self.workers\<close> is a map, threaded through the methods together with the trace of
    the external calls the manager has made so far;
  \<^item> what the outside world answers to an external call is read from an environment,
    indexed by the number of external calls made before it, so that every behaviour of
    the outside world is one environment.
  Calls to \<open>logging\<close> and \<open>traceback\<close> only print; they are left out.
\<close>

subsection \<open>Python values and exceptions\<close>

datatype pyval = PyBytes string | PyInt int | PyNone

text \<open>
  Exceptions.  \<open>RuntimeError code result\<close> is the \<open>RuntimeError("{} - {}".format(code,
  result))\<close> of \<open>handle_connection\<close>; \<open>UnknownCommand cmd\<close> is its
  \<open>ValueError("Received unknown command: {}".format(cmd))\<close>; \<open>WorkerNotSpawned\<close> is the
  \<open>Exception("Worker not spawned")\<close> of \<open>scale_up\<close>; \<open>OtherError\<close> is any other exception
  a collaborator raises.
\<close>

datatype exn =
    KeyError string
  | AttributeError
  | TypeError
  | UnicodeDecodeError
  | ValueError
  | MemoryError
  | NameError string
  | OSError
  | RuntimeError int string
  | UnknownCommand string
  | WorkerNotSpawned
  | OtherError string

type_synonym request = "string \<rightharpoonup> pyval"

subsection \<open>Collaborator data\<close>

text \<open>
  A service as the manager looks at it: \<open>service.context\<close> may be \<open>None\<close>; the manifest may
  be \<open>None\<close> or a dictionary of sections, each section a dictionary of which only the keys
  matter here; \<open>metrics\<close> may be \<open>None\<close>.
\<close>

record service_context =
  manifest :: "(string \<times> string list) list option"
  metrics :: "nat option"

record service =
  svc_name :: string
  svc_context :: "service_context option"

type_synonym service_args = "string \<times> string \<times> string option \<times> int option \<times> int option"

record worker_obj =
  w_sock_type :: string
  w_sock_name :: string
  w_host :: string
  w_port :: string
  w_service :: "service option"
  w_service_args :: "service_args option"
  w_fifo_path :: string

text \<open>An entry of \<open>self.workers\<close>: \<open>{"worker": p, "fifo": fifo_path}\<close>; \<open>p\<close> is a process handle.\<close>

record worker_record =
  worker :: nat
  fifo :: string

subsection \<open>External calls\<close>

datatype action =
    GetModelLoader
  | LoaderLoad string string "string option" "int option" "int option" bool
  | NewWorker worker_obj
  | PathExists string
  | OsRemove string
  | OpenWrite string
  | ProcessStart nat worker_obj
  | Sleep
  | ReadFile string
  | Terminate nat
  | SetStartMethod
  | RetrieveMsg
  | Send string
  | EmitMetrics nat
  | ProfDisable
  | ProfDump
  | ProfEnable

text \<open>
  The environment: the Python built-ins whose result depends on the bytes given
  (\<open>bytes.decode("utf-8")\<close>, \<open>int(bytes)\<close>; \<open>None\<close> is the exception they raise), the two
  response encoders of the codec, and the answer of the outside world to each external
  call.  The \<open>nat\<close> argument is the number of external calls made before this one.
\<close>

record env =
  utf8_decode :: "string \<Rightarrow> string option"
  int_of_bytes :: "string \<Rightarrow> int option"
  create_load_model_response :: "int \<Rightarrow> string \<Rightarrow> string"
  create_scale_model_response :: "int \<Rightarrow> string \<Rightarrow> string"
  get_model_loader :: "nat \<Rightarrow> exn option"
  loader_load :: "nat \<Rightarrow> string \<Rightarrow> string \<Rightarrow> string option \<Rightarrow> int option \<Rightarrow> int option
                   \<Rightarrow> bool \<Rightarrow> exn + service"
  new_worker :: "nat \<Rightarrow> worker_obj \<Rightarrow> exn option"
  path_exists :: "nat \<Rightarrow> string \<Rightarrow> bool"
  os_remove :: "nat \<Rightarrow> string \<Rightarrow> exn option"
  open_write :: "nat \<Rightarrow> string \<Rightarrow> exn option"
  process_start :: "nat \<Rightarrow> worker_obj \<Rightarrow> exn option"
  read_file :: "nat \<Rightarrow> string \<Rightarrow> exn + string"
  terminate :: "nat \<Rightarrow> nat \<Rightarrow> exn option"
  set_start_method :: "nat \<Rightarrow> exn option"
  retrieve_msg :: "nat \<Rightarrow> exn + (string \<times> request)"
  send :: "nat \<Rightarrow> string \<Rightarrow> exn option"
  emit_metrics :: "nat \<Rightarrow> nat \<Rightarrow> exn option"
  profiler :: "nat \<Rightarrow> action \<Rightarrow> exn option"

subsection \<open>State and the exception monad\<close>

record mstate =
  workers :: "string \<rightharpoonup> worker_record"
  trace :: "action list"

type_synonym 'a M = "mstate \<Rightarrow> (exn + 'a) \<times> mstate"

definition returnM :: "'a \<Rightarrow> 'a M" where
  "returnM x s = (Inr x, s)"

definition raiseM :: "exn \<Rightarrow> 'a M" where
  "raiseM e s = (Inl e, s)"

definition bindM :: "'a M \<Rightarrow> ('a \<Rightarrow> 'b M) \<Rightarrow> 'b M" where
  "bindM m f s = (case m s of (Inl e, s') \<Rightarrow> (Inl e, s') | (Inr x, s') \<Rightarrow> f x s')"

definition liftM :: "exn + 'a \<Rightarrow> 'a M" where
  "liftM r s = (r, s)"

text \<open>\<open>try: m except: h\<close> with a bare \<open>except\<close>: every exception of \<open>m\<close> runs the handler.\<close>

definition try_except :: "'a M \<Rightarrow> (exn \<Rightarrow> 'a M) \<Rightarrow> 'a M" where
  "try_except m h s = (case m s of (Inl e, s') \<Rightarrow> h e s' | (Inr x, s') \<Rightarrow> (Inr x, s'))"

text \<open>An external call that returns nothing: it is recorded, then it may raise.\<close>

definition act :: "(nat \<Rightarrow> exn option) \<Rightarrow> action \<Rightarrow> unit M" where
  "act answer a s =
     (case answer (length (trace s)) of
        Some e \<Rightarrow> (Inl e, s\<lparr>trace := trace s @ [a]\<rparr>)
      | None \<Rightarrow> (Inr (), s\<lparr>trace := trace s @ [a]\<rparr>))"

text \<open>An external call that returns a value.\<close>

definition ask :: "(nat \<Rightarrow> exn + 'a) \<Rightarrow> action \<Rightarrow> 'a M" where
  "ask answer a s = (answer (length (trace s)), s\<lparr>trace := trace s @ [a]\<rparr>)"

subsection \<open>Python operations on request values\<close>

text \<open>\<open>d[k]\<close>\<close>

definition getitem :: "request \<Rightarrow> string \<Rightarrow> exn + pyval" where
  "getitem d k = (case d k of None \<Rightarrow> Inl (KeyError k) | Some v \<Rightarrow> Inr v)"

text \<open>\<open>v.decode("utf-8")\<close>: only a bytes object has the method.\<close>

definition decode :: "env \<Rightarrow> pyval \<Rightarrow> exn + string" where
  "decode E v =
     (case v of
        PyBytes b \<Rightarrow> (case utf8_decode E b of None \<Rightarrow> Inl UnicodeDecodeError | Some t \<Rightarrow> Inr t)
      | PyInt n \<Rightarrow> Inl AttributeError
      | PyNone \<Rightarrow> Inl AttributeError)"

text \<open>\<open>d[k].decode("utf-8")\<close>\<close>

definition getitem_decode :: "env \<Rightarrow> request \<Rightarrow> string \<Rightarrow> exn + string" where
  "getitem_decode E d k = (case getitem d k of Inl e \<Rightarrow> Inl e | Inr v \<Rightarrow> decode E v)"

text \<open>Truth value of a request value.\<close>

definition truthy :: "pyval \<Rightarrow> bool" where
  "truthy v = (case v of PyBytes b \<Rightarrow> b \<noteq> [] | PyInt n \<Rightarrow> n \<noteq> 0 | PyNone \<Rightarrow> False)"

text \<open>\<open>int(v)\<close>\<close>

definition py_int :: "env \<Rightarrow> pyval \<Rightarrow> exn + int" where
  "py_int E v =
     (case v of
        PyInt n \<Rightarrow> Inr n
      | PyBytes b \<Rightarrow> (case int_of_bytes E b of None \<Rightarrow> Inl ValueError | Some n \<Rightarrow> Inr n)
      | PyNone \<Rightarrow> Inl TypeError)"

subsection \<open>\<open>scale_down\<close>\<close>

text \<open>
  The body of the \<open>try\<close>: the port is decoded, the record is looked up (twice in the
  source, for \<open>"worker"\<close> and for \<open>"fifo"\<close>; the second lookup finds what the first found),
  and the process is asked to terminate.  Nothing is deleted from \<open>self.workers\<close>.
\<close>

definition scale_down_body :: "env \<Rightarrow> request \<Rightarrow> (string \<times> int) M" where
  "scale_down_body E req =
     bindM (liftM (getitem_decode E req ''port'')) (\<lambda>port.
     (\<lambda>s. (case workers s port of
              None \<Rightarrow> raiseM (KeyError port)
            | Some r \<Rightarrow>
                bindM (act (\<lambda>n. terminate E n (worker r)) (Terminate (worker r))) (\<lambda>_.
                returnM (''scaled down'', 200))) s))"

text \<open>
  The handler of \<open>scale_down\<close> logs and executes \<open>raise\<close>; the \<open>return "scale down
  failed", 500\<close> written after it is never reached.
\<close>

definition scale_down :: "env \<Rightarrow> request \<Rightarrow> (string \<times> int) M" where
  "scale_down E req =
     try_except (scale_down_body E req)
       (\<lambda>e. bindM (raiseM e) (\<lambda>_ :: unit. returnM (''scale down failed'', 500)))"

subsection \<open>\<open>load_model\<close>\<close>

text \<open>\<open>try: m except X: h\<close>: only the exception \<open>X\<close> runs the handler.\<close>

definition try_except_only :: "exn \<Rightarrow> 'a M \<Rightarrow> 'a M \<Rightarrow> 'a M" where
  "try_except_only x m h s =
     (case m s of
        (Inl e, s') \<Rightarrow> if e = x then h s' else (Inl e, s')
      | (Inr y, s') \<Rightarrow> (Inr y, s'))"

text \<open>
  \<open>load_model_request["handler"].decode("utf-8") if load_model_request["handler"] else
  None\<close>: the condition indexes the request first.
\<close>

definition get_handler :: "env \<Rightarrow> request \<Rightarrow> exn + string option" where
  "get_handler E req =
     (case getitem req ''handler'' of
        Inl e \<Rightarrow> Inl e
      | Inr v \<Rightarrow>
          if truthy v
          then (case getitem_decode E req ''handler'' of Inl e \<Rightarrow> Inl e | Inr h \<Rightarrow> Inr (Some h))
          else Inr None)"

text \<open>\<open>x = None; if k in request: x = int(request[k])\<close>\<close>

definition get_optional_int :: "env \<Rightarrow> request \<Rightarrow> string \<Rightarrow> exn + int option" where
  "get_optional_int E req k =
     (case req k of
        None \<Rightarrow> Inr None
      | Some v \<Rightarrow> (case py_int E v of Inl e \<Rightarrow> Inl e | Inr n \<Rightarrow> Inr (Some n)))"

text \<open>
  \<open>is_eager = False; if service.context.manifest: is_eager = 'modelFile' in
  service.context.manifest['model']\<close>.  A manifest that is \<open>None\<close> or empty is false.
\<close>

definition is_eager :: "service \<Rightarrow> exn + bool" where
  "is_eager svc =
     (case svc_context svc of
        None \<Rightarrow> Inl AttributeError
      | Some c \<Rightarrow>
          (case manifest c of
             None \<Rightarrow> Inr False
           | Some [] \<Rightarrow> Inr False
           | Some (x # xs) \<Rightarrow>
               (case map_of (x # xs) ''model'' of
                  None \<Rightarrow> Inl (KeyError ''model'')
                | Some keys \<Rightarrow> Inr (''modelFile'' \<in> set keys))))"

type_synonym load_result = "service option \<times> service_args option \<times> string \<times> int"

definition load_model_body :: "env \<Rightarrow> request \<Rightarrow> load_result M" where
  "load_model_body E req =
     bindM (liftM (getitem_decode E req ''modelPath'')) (\<lambda>model_dir.
     bindM (liftM (getitem_decode E req ''modelName'')) (\<lambda>model_name.
     bindM (liftM (get_handler E req)) (\<lambda>handler.
     bindM (liftM (get_optional_int E req ''batchSize'')) (\<lambda>batch_size.
     bindM (liftM (get_optional_int E req ''gpu'')) (\<lambda>gpu.
     bindM (act (get_model_loader E) GetModelLoader) (\<lambda>_.
     bindM (ask (\<lambda>n. loader_load E n model_name model_dir handler gpu batch_size False)
              (LoaderLoad model_name model_dir handler gpu batch_size False)) (\<lambda>svc.
     bindM (liftM (is_eager svc)) (\<lambda>eager.
     if eager then
       bindM (ask (\<lambda>n. loader_load E n model_name model_dir handler gpu batch_size True)
                (LoaderLoad model_name model_dir handler gpu batch_size True)) (\<lambda>svc'.
       returnM (Some svc', None, ''loaded model '' @ model_name, 200))
     else
       returnM (None, Some (model_name, model_dir, handler, gpu, batch_size),
                ''loaded model '' @ model_name, 200)))))))))"

definition load_model :: "env \<Rightarrow> request \<Rightarrow> load_result M" where
  "load_model E req =
     try_except_only MemoryError (load_model_body E req)
       (returnM (None, None, ''System out of memory'', 507))"

subsection \<open>\<open>scale_up\<close>\<close>

text \<open>
  \<open>create_fifo\<close>: \<open>os.remove(file_name) if os.path.exists(file_name) else None\<close>, then
  \<open>open(file_name, "w").close()\<close>.
\<close>

definition create_fifo :: "env \<Rightarrow> string \<Rightarrow> unit M" where
  "create_fifo E file_name =
     bindM (ask (\<lambda>n. Inr (path_exists E n file_name)) (PathExists file_name)) (\<lambda>ex.
     bindM (if ex then act (\<lambda>n. os_remove E n file_name) (OsRemove file_name) else returnM ())
       (\<lambda>_.
     act (\<lambda>n. open_write E n file_name) (OpenWrite file_name)))"

definition sentinel :: string where
  "sentinel = ''Torch worker started.''"

text \<open>
  The polling loop, started with \<open>retry\<close>; it returns the value of \<open>retry\<close> with which the
  loop is left: a \<open>break\<close> leaves it positive, exhaustion leaves 0.
\<close>

fun poll :: "env \<Rightarrow> string \<Rightarrow> nat \<Rightarrow> nat M" where
  "poll E fifo_path 0 = returnM 0"
| "poll E fifo_path (Suc r) =
     bindM (act (\<lambda>n. None) Sleep) (\<lambda>_.
     bindM (ask (\<lambda>n. read_file E n (fifo_path @ ''.out'')) (ReadFile (fifo_path @ ''.out'')))
       (\<lambda>out.
     if sublist sentinel out then returnM (Suc r)
     else
       bindM (ask (\<lambda>n. read_file E n (fifo_path @ ''.err'')) (ReadFile (fifo_path @ ''.err'')))
         (\<lambda>err.
       if sublist sentinel err then returnM (Suc r)
       else poll E fifo_path r)))"

text \<open>The handle of the process about to be started: the index of its \<open>ProcessStart\<close>.\<close>

definition fresh_handle :: "nat M" where
  "fresh_handle s = (Inr (length (trace s)), s)"

text \<open>\<open>worker_id = sock_name if sock_name else port\<close>\<close>

definition worker_id :: "string \<Rightarrow> string \<Rightarrow> string" where
  "worker_id sock_name port = (if sock_name \<noteq> [] then sock_name else port)"

text \<open>\<open>self.workers[worker_id] = { "worker" : p, "fifo" : fifo_path }\<close>\<close>

definition register_worker :: "string \<Rightarrow> nat \<Rightarrow> string \<Rightarrow> unit M" where
  "register_worker wid p fifo_path s =
     (Inr (), s\<lparr>workers := (workers s)(wid \<mapsto> \<lparr>worker = p, fifo = fifo_path\<rparr>)\<rparr>)"

text \<open>
  The \<open>try\<close> of \<open>scale_up\<close> in three parts.  First the fields are decoded and the worker
  object and the two files are created; this yields the local variables that are read
  later.
\<close>

definition scale_up_prepare ::
  "env \<Rightarrow> request \<Rightarrow> service option \<Rightarrow> service_args option
     \<Rightarrow> (string \<times> string \<times> string \<times> worker_obj) M" where
  "scale_up_prepare E req svc svc_args =
     bindM (liftM (getitem_decode E req ''sock_name'')) (\<lambda>sock_name.
     bindM (liftM (getitem_decode E req ''sock_type'')) (\<lambda>sock_type.
     bindM (liftM (getitem_decode E req ''host'')) (\<lambda>host.
     bindM (liftM (getitem_decode E req ''port'')) (\<lambda>port.
     bindM (liftM (getitem_decode E req ''fifo_path'')) (\<lambda>fifo_path.
     (let w = \<lparr>w_sock_type = sock_type, w_sock_name = sock_name, w_host = host,
                w_port = port, w_service = svc, w_service_args = svc_args,
                w_fifo_path = fifo_path\<rparr> in
     bindM (act (\<lambda>n. new_worker E n w) (NewWorker w)) (\<lambda>_.
     bindM (create_fifo E (fifo_path @ ''.out'')) (\<lambda>_.
     bindM (create_fifo E (fifo_path @ ''.err'')) (\<lambda>_.
     returnM (sock_name, port, fifo_path, w))))))))))"

text \<open>\<open>p = mp.Process(target=worker.run_server); p.start()\<close>\<close>

definition start_process :: "env \<Rightarrow> worker_obj \<Rightarrow> nat M" where
  "start_process E w =
     bindM fresh_handle (\<lambda>p.
     bindM (act (\<lambda>n. process_start E n w) (ProcessStart p w)) (\<lambda>_.
     returnM p))"

text \<open>The \<open>try\<close> through \<open>p.start()\<close>.\<close>

definition scale_up_setup ::
  "env \<Rightarrow> request \<Rightarrow> service option \<Rightarrow> service_args option
     \<Rightarrow> (string \<times> string \<times> string \<times> nat) M" where
  "scale_up_setup E req svc svc_args =
     bindM (scale_up_prepare E req svc svc_args) (\<lambda>(sock_name, port, fifo_path, w).
     bindM (start_process E w) (\<lambda>p.
     returnM (sock_name, port, fifo_path, p)))"

text \<open>
  The rest, after \<open>p.start()\<close> has returned: the record is registered under
  \<open>worker_id\<close>, the files are polled with \<open>retry = 10\<close>, and \<open>retry == 0\<close> after the loop
  raises.
\<close>

definition scale_up_started ::
  "env \<Rightarrow> string \<Rightarrow> string \<Rightarrow> string \<Rightarrow> nat \<Rightarrow> (string \<times> int) M" where
  "scale_up_started E sock_name port fifo_path p =
     bindM (register_worker (worker_id sock_name port) p fifo_path) (\<lambda>_.
     bindM (poll E fifo_path 10) (\<lambda>retry.
     if retry = 0 then raiseM WorkerNotSpawned
     else returnM (''scaled up'', 200)))"

definition scale_up_body ::
  "env \<Rightarrow> request \<Rightarrow> service option \<Rightarrow> service_args option \<Rightarrow> (string \<times> int) M" where
  "scale_up_body E req svc svc_args =
     bindM (scale_up_setup E req svc svc_args) (\<lambda>(sock_name, port, fifo_path, p).
     scale_up_started E sock_name port fifo_path p)"

definition scale_up ::
  "env \<Rightarrow> request \<Rightarrow> service option \<Rightarrow> service_args option \<Rightarrow> (string \<times> int) M" where
  "scale_up E req svc svc_args =
     try_except (scale_up_body E req svc svc_args) (\<lambda>e. returnM (''scale up failed'', 500))"

subsection \<open>\<open>handle_connection\<close>\<close>

text \<open>
  The module's globals that the loop reads: \<open>BENCHMARK\<close>, and whether the name \<open>pr\<close> is
  bound (the module binds it only when it runs as the main program with \<open>BENCHMARK\<close> set).
\<close>

record globals =
  BENCHMARK :: bool
  pr_bound :: bool

definition pr_call :: "env \<Rightarrow> globals \<Rightarrow> action \<Rightarrow> unit M" where
  "pr_call E g a =
     (if pr_bound g then act (\<lambda>n. profiler E n a) a else raiseM (NameError ''pr''))"

text \<open>\<open>cl_socket.send(resp)\<close>\<close>

definition send_resp :: "env \<Rightarrow> string \<Rightarrow> unit M" where
  "send_resp E resp = act (\<lambda>n. send E n resp) (Send resp)"

type_synonym loaded = "service option \<times> service_args option"

text \<open>
  The \<open>if BENCHMARK: ... elif cmd == b'L': ... elif cmd == b'U': ... elif cmd == b'D': ...
  else: raise ValueError\<close> chain; it returns the local variables \<open>service\<close> and
  \<open>service_args\<close>.
\<close>

definition dispatch :: "env \<Rightarrow> globals \<Rightarrow> string \<Rightarrow> request \<Rightarrow> loaded \<Rightarrow> loaded M" where
  "dispatch E g cmd msg loc =
     (if BENCHMARK g then
        bindM (pr_call E g ProfEnable) (\<lambda>_. returnM loc)
      else if cmd = ''L'' then
        bindM (load_model E msg) (\<lambda>(svc, svc_args, result, code).
        bindM (send_resp E (create_load_model_response E code result)) (\<lambda>_.
        if code \<noteq> 200 then raiseM (RuntimeError code result)
        else returnM (svc, svc_args)))
      else if cmd = ''U'' then
        bindM (scale_up E msg (fst loc) (snd loc)) (\<lambda>(result, code).
        bindM (send_resp E (create_scale_model_response E code result)) (\<lambda>_.
        if code \<noteq> 200 then raiseM (RuntimeError code result)
        else returnM loc))
      else if cmd = ''D'' then
        bindM (scale_down E msg) (\<lambda>(result, code).
        (let (code, result) = (200, ''DONE'') in
        bindM (send_resp E (create_scale_model_response E code result)) (\<lambda>_.
        if code \<noteq> 200 then raiseM (RuntimeError code result)
        else returnM loc)))
      else raiseM (UnknownCommand cmd))"

text \<open>
  \<open>if service is not None and service.context is not None and service.context.metrics
  is not None: emit_metrics(service.context.metrics.store)\<close>
\<close>

definition emit_if_metrics :: "env \<Rightarrow> service option \<Rightarrow> unit M" where
  "emit_if_metrics E svc =
     (case svc of
        None \<Rightarrow> returnM ()
      | Some sv \<Rightarrow>
          (case svc_context sv of
             None \<Rightarrow> returnM ()
           | Some c \<Rightarrow>
               (case metrics c of
                  None \<Rightarrow> returnM ()
                | Some store \<Rightarrow> act (\<lambda>n. emit_metrics E n store) (EmitMetrics store))))"

text \<open>One pass through the body of \<open>while True\<close>.\<close>

definition iteration :: "env \<Rightarrow> globals \<Rightarrow> loaded \<Rightarrow> loaded M" where
  "iteration E g loc =
     bindM (if BENCHMARK g
            then bindM (pr_call E g ProfDisable) (\<lambda>_. pr_call E g ProfDump)
            else returnM ()) (\<lambda>_.
     bindM (ask (retrieve_msg E) RetrieveMsg) (\<lambda>(cmd, msg).
     bindM (dispatch E g cmd msg loc) (\<lambda>loc'.
     bindM (emit_if_metrics E (fst loc')) (\<lambda>_.
     returnM loc'))))"

text \<open>
  The loop never returns; only an exception leaves it.  \<open>serve n\<close> runs at most \<open>n\<close> passes:
  \<open>Some e\<close> is the exception that left the loop, \<open>None\<close> says the loop is still running.
\<close>

fun serve :: "nat \<Rightarrow> env \<Rightarrow> globals \<Rightarrow> loaded \<Rightarrow> mstate \<Rightarrow> exn option \<times> mstate" where
  "serve 0 E g loc s = (None, s)"
| "serve (Suc n) E g loc s =
     (case iteration E g loc s of
        (Inl e, s') \<Rightarrow> (Some e, s')
      | (Inr loc', s') \<Rightarrow> serve n E g loc' s')"

text \<open>
  \<open>handle_connection\<close>: \<open>service = None; service_args = None;
  mp.set_start_method('spawn')\<close>, then the loop.
\<close>

definition handle_connection :: "nat \<Rightarrow> env \<Rightarrow> globals \<Rightarrow> mstate \<Rightarrow> exn option \<times> mstate" where
  "handle_connection n E g s =
     (case act (set_start_method E) SetStartMethod s of
        (Inl e, s') \<Rightarrow> (Some e, s')
      | (Inr u, s') \<Rightarrow> serve n E g (None, None) s')"

subsection \<open>Vocabulary of the statements\<close>

text \<open>
  What one polling attempt sees.  An attempt that starts after \<open>n\<close> external calls sleeps
  (call \<open>n\<close>), reads the \<open>.out\<close> file (call \<open>n + 1\<close>) and, unless that showed the sentinel,
  the \<open>.err\<close> file (call \<open>n + 2\<close>).  \<open>nothing_at\<close>: both reads succeed and neither shows the
  sentinel.  \<open>found_at\<close>: the first read shows it, or the first does not and the second
  does.  \<open>last_attempt\<close> is the calls of an attempt that finds it.
\<close>

definition has_sentinel :: "exn + string \<Rightarrow> bool" where
  "has_sentinel r = (case r of Inl e \<Rightarrow> False | Inr c \<Rightarrow> sublist sentinel c)"

definition lacks_sentinel :: "exn + string \<Rightarrow> bool" where
  "lacks_sentinel r = (case r of Inl e \<Rightarrow> False | Inr c \<Rightarrow> \<not> sublist sentinel c)"

definition nothing_at :: "env \<Rightarrow> string \<Rightarrow> nat \<Rightarrow> bool" where
  "nothing_at E fifo_path n =
     (lacks_sentinel (read_file E (n + 1) (fifo_path @ ''.out'')) \<and>
      lacks_sentinel (read_file E (n + 2) (fifo_path @ ''.err'')))"

definition found_at :: "env \<Rightarrow> string \<Rightarrow> nat \<Rightarrow> bool" where
  "found_at E fifo_path n =
     (has_sentinel (read_file E (n + 1) (fifo_path @ ''.out'')) \<or>
      lacks_sentinel (read_file E (n + 1) (fifo_path @ ''.out'')) \<and>
      has_sentinel (read_file E (n + 2) (fifo_path @ ''.err'')))"

text \<open>One polling attempt that finds nothing: the sleep and the two reads.\<close>

abbreviation attempt :: "string \<Rightarrow> action list" where
  "attempt fifo_path \<equiv>
     [Sleep, ReadFile (fifo_path @ ''.out''), ReadFile (fifo_path @ ''.err'')]"

definition last_attempt :: "env \<Rightarrow> string \<Rightarrow> nat \<Rightarrow> action list" where
  "last_attempt E fifo_path n =
     (if has_sentinel (read_file E (n + 1) (fifo_path @ ''.out''))
      then [Sleep, ReadFile (fifo_path @ ''.out'')]
      else attempt fifo_path)"

text \<open>
  \<open>extends P m\<close>: whatever the state, \<open>m\<close> changes it only by appending external calls to
  the trace, and every call it appends satisfies \<open>P\<close>.
\<close>

definition extends :: "(action \<Rightarrow> bool) \<Rightarrow> 'a M \<Rightarrow> bool" where
  "extends P m = (\<forall>s. \<exists>new. snd (m s) = s\<lparr>trace := trace s @ new\<rparr> \<and> list_all P new)"

text \<open>The external calls of \<open>scale_up\<close> before the polling.\<close>

fun setup_action :: "action \<Rightarrow> bool" where
  "setup_action (NewWorker w) = True"
| "setup_action (PathExists f) = True"
| "setup_action (OsRemove f) = True"
| "setup_action (OpenWrite f) = True"
| "setup_action (ProcessStart p w) = True"
| "setup_action a = False"

text \<open>
  The external calls of a pass through the loop that dispatches nothing, and the calls of
  one such pass when the profiler is in use.
\<close>

fun idle_action :: "action \<Rightarrow> bool" where
  "idle_action SetStartMethod = True"
| "idle_action ProfDisable = True"
| "idle_action ProfDump = True"
| "idle_action RetrieveMsg = True"
| "idle_action ProfEnable = True"
| "idle_action a = False"

abbreviation skipped :: "action list" where
  "skipped \<equiv> [ProfDisable, ProfDump, RetrieveMsg, ProfEnable]"

subsection \<open>Concrete inputs\<close>

text \<open>
  An outside world in which nothing fails and nothing happens: every call succeeds, no
  file exists or has contents, bytes decode to themselves, and the connection has no
  message to deliver.
\<close>

definition quiet_env :: env where
  "quiet_env =
     \<lparr>utf8_decode = Some, int_of_bytes = (\<lambda>b. None),
      create_load_model_response = (\<lambda>code msg. msg),
      create_scale_model_response = (\<lambda>code msg. msg),
      get_model_loader = (\<lambda>n. None),
      loader_load = (\<lambda>n name dir h gpu b init.
        Inr \<lparr>svc_name = name, svc_context = Some \<lparr>manifest = None, metrics = None\<rparr>\<rparr>),
      new_worker = (\<lambda>n w. None), path_exists = (\<lambda>n p. False), os_remove = (\<lambda>n p. None),
      open_write = (\<lambda>n p. None), process_start = (\<lambda>n w. None),
      read_file = (\<lambda>n p. Inr []), terminate = (\<lambda>n h. None),
      set_start_method = (\<lambda>n. None), retrieve_msg = (\<lambda>n. Inl OSError),
      send = (\<lambda>n b. None), emit_metrics = (\<lambda>n m. None), profiler = (\<lambda>n a. None)\<rparr>"

definition down_9000 :: request where
  "down_9000 = [''port'' \<mapsto> PyBytes ''9000'']"

definition empty_state :: mstate where
  "empty_state = \<lparr>workers = Map.empty, trace = []\<rparr>"

definition one_worker :: mstate where
  "one_worker = \<lparr>workers = [''9000'' \<mapsto> \<lparr>worker = 0, fifo = ''/tmp/f''\<rparr>], trace = []\<rparr>"

text \<open>
  A Scale Up request for a TCP worker on port 9000, the worker object built from it, and
  the state right after its process was started from the empty state: the process handle
  is 5.
\<close>

definition up_9000 :: request where
  "up_9000 =
     [''sock_name'' \<mapsto> PyBytes [], ''sock_type'' \<mapsto> PyBytes ''tcp'',
      ''host'' \<mapsto> PyBytes ''127.0.0.1'', ''port'' \<mapsto> PyBytes ''9000'',
      ''fifo_path'' \<mapsto> PyBytes ''/tmp/f'']"

definition worker_9000 :: worker_obj where
  "worker_9000 =
     \<lparr>w_sock_type = ''tcp'', w_sock_name = [], w_host = ''127.0.0.1'', w_port = ''9000'',
      w_service = None, w_service_args = None, w_fifo_path = ''/tmp/f''\<rparr>"

definition started_state :: mstate where
  "started_state =
     \<lparr>workers = Map.empty,
      trace = [NewWorker worker_9000, PathExists ''/tmp/f.out'', OpenWrite ''/tmp/f.out'',
               PathExists ''/tmp/f.err'', OpenWrite ''/tmp/f.err'', ProcessStart 5 worker_9000]\<rparr>"

text \<open>
  An outside world in which the worker writes the sentinel to its \<open>.out\<close> file in time for
  the third polling attempt of that Scale Up.
\<close>

definition ready_env :: env where
  "ready_env =
     quiet_env\<lparr>read_file := (\<lambda>n p. if 13 \<le> n \<and> p = ''/tmp/f.out''
                                 then Inr ''INFO Torch worker started.'' else Inr [])\<rparr>"

text \<open>
  Load requests for the model \<open>x\<close>: one with an empty handler, one without the handler
  key.  Neither names a GPU or a batch size.
\<close>

definition load_x :: request where
  "load_x = [''modelPath'' \<mapsto> PyBytes ''/m'', ''modelName'' \<mapsto> PyBytes ''x'',
             ''handler'' \<mapsto> PyBytes []]"

definition load_x_no_handler :: request where
  "load_x_no_handler = [''modelPath'' \<mapsto> PyBytes ''/m'', ''modelName'' \<mapsto> PyBytes ''x'']"





definition oom_env :: env where
  "oom_env = quiet_env\<lparr>loader_load := (\<lambda>n name dir h gpu b init. Inl MemoryError)\<rparr>"

definition broken_loader_env :: env where
  "broken_loader_env = quiet_env\<lparr>loader_load := (\<lambda>n name dir h gpu b init. Inl OSError)\<rparr>"

text \<open>
  The module's globals with the benchmark flag set (and the profiler bound), and with the
  flag not set; connections that deliver a message with the tag \<open>X\<close>, or a Scale Down for
  \<open>9000\<close>, whenever the loop reads one.
\<close>

definition bench_globals :: globals where
  "bench_globals = \<lparr>BENCHMARK = True, pr_bound = True\<rparr>"

definition plain_globals :: globals where
  "plain_globals = \<lparr>BENCHMARK = False, pr_bound = False\<rparr>"

definition unknown_env :: env where
  "unknown_env = quiet_env\<lparr>retrieve_msg := (\<lambda>n. Inr (''X'', Map.empty))\<rparr>"

definition down_env :: env where
  "down_env = quiet_env\<lparr>retrieve_msg := (\<lambda>n. Inr (''D'', down_9000))\<rparr>"






section \<open>Properties\<close>

lemmas monad_defs = returnM_def raiseM_def bindM_def liftM_def try_except_def
  try_except_only_def act_def ask_def

lemmas request_defs = getitem_def decode_def getitem_decode_def truthy_def py_int_def

subsection \<open>Laws of the monad\<close>

lemma bindM_liftM_Inr: "bindM (liftM (Inr x)) f = f x"
  by (rule ext) (simp add: bindM_def liftM_def)


lemma bindM_returnM: "bindM (returnM x) f = f x"
  by (rule ext) (simp add: bindM_def returnM_def)

lemma bindM_raiseM: "bindM (raiseM e) f = raiseM e"
  by (rule ext) (simp add: bindM_def raiseM_def)

lemma bindM_assoc: "bindM (bindM m f) g = bindM m (\<lambda>x. bindM (f x) g)"
  by (rule ext) (simp add: bindM_def split: prod.splits sum.splits)

subsection \<open>Which external calls a computation makes\<close>

lemma extendsD:
  assumes "extends P m"
  obtains new where "snd (m s) = s\<lparr>trace := trace s @ new\<rparr>" and "list_all P new"
  using assms unfolding extends_def by blast

lemma extends_returnM: "extends P (returnM x)"
  unfolding extends_def by (intro allI exI [of _ "[]"]) (simp add: returnM_def)

lemma extends_raiseM: "extends P (raiseM e)"
  unfolding extends_def by (intro allI exI [of _ "[]"]) (simp add: raiseM_def)

lemma extends_liftM: "extends P (liftM r)"
  unfolding extends_def by (intro allI exI [of _ "[]"]) (simp add: liftM_def)

lemma extends_fresh_handle: "extends P fresh_handle"
  unfolding extends_def by (intro allI exI [of _ "[]"]) (simp add: fresh_handle_def)

lemma extends_act: "P a \<Longrightarrow> extends P (act answer a)"
  unfolding extends_def by (intro allI exI [of _ "[a]"]) (simp add: act_def split: option.splits)

lemma extends_ask: "P a \<Longrightarrow> extends P (ask answer a)"
  unfolding extends_def by (intro allI exI [of _ "[a]"]) (simp add: ask_def)

lemma extends_bindM:
  assumes m: "extends P m" and f: "\<And>x. extends P (f x)"
  shows "extends P (bindM m f)"
  unfolding extends_def
proof
  fix s
  obtain r s1 where ms: "m s = (r, s1)" by (cases "m s")
  from extendsD [OF m, of s] ms obtain new1 where
    new1: "s1 = s\<lparr>trace := trace s @ new1\<rparr>" "list_all P new1" by auto
  show "\<exists>new. snd (bindM m f s) = s\<lparr>trace := trace s @ new\<rparr> \<and> list_all P new"
  proof (cases r)
    case (Inl e)
    with ms new1 show ?thesis by (intro exI [of _ new1]) (simp add: bindM_def)
  next
    case (Inr x)
    from extendsD [OF f, of x s1] obtain new2 where
      new2: "snd (f x s1) = s1\<lparr>trace := trace s1 @ new2\<rparr>" "list_all P new2" by auto
    with Inr ms new1 show ?thesis
      by (intro exI [of _ "new1 @ new2"]) (simp add: bindM_def)
  qed
qed

lemma extends_try_except:
  assumes m: "extends P m" and h: "\<And>e. extends P (h e)"
  shows "extends P (try_except m h)"
  unfolding extends_def
proof
  fix s
  obtain r s1 where ms: "m s = (r, s1)" by (cases "m s")
  from extendsD [OF m, of s] ms obtain new1 where
    new1: "s1 = s\<lparr>trace := trace s @ new1\<rparr>" "list_all P new1" by auto
  show "\<exists>new. snd (try_except m h s) = s\<lparr>trace := trace s @ new\<rparr> \<and> list_all P new"
  proof (cases r)
    case (Inr x)
    with ms new1 show ?thesis by (intro exI [of _ new1]) (simp add: try_except_def)
  next
    case (Inl e)
    from extendsD [OF h, of e s1] obtain new2 where
      new2: "snd (h e s1) = s1\<lparr>trace := trace s1 @ new2\<rparr>" "list_all P new2" by auto
    with Inl ms new1 show ?thesis
      by (intro exI [of _ "new1 @ new2"]) (simp add: try_except_def)
  qed
qed

lemma extends_try_except_only:
  assumes m: "extends P m" and h: "extends P h"
  shows "extends P (try_except_only x m h)"
proof -
  have "try_except_only x m h = try_except m (\<lambda>e. if e = x then h else raiseM e)"
    by (rule ext) (simp add: try_except_only_def try_except_def raiseM_def split: sum.splits prod.splits)
  then show ?thesis
    using m h by (simp add: extends_try_except extends_raiseM)
qed

lemma extends_if:
  "(c \<Longrightarrow> extends P m) \<Longrightarrow> (\<not> c \<Longrightarrow> extends P n) \<Longrightarrow> extends P (if c then m else n)"
  by simp

lemma extends_mono: "extends P m \<Longrightarrow> (\<And>a. P a \<Longrightarrow> Q a) \<Longrightarrow> extends Q m"
  unfolding extends_def by (meson list.pred_mono_strong)

lemmas extends_intros = extends_returnM extends_raiseM extends_liftM extends_fresh_handle
  extends_act extends_ask extends_bindM extends_try_except extends_try_except_only extends_if

lemma bindM_InrD:
  assumes "bindM m f s = (Inr y, s')"
  shows "\<exists>x s1. m s = (Inr x, s1) \<and> f x s1 = (Inr y, s')"
  using assms by (auto simp: bindM_def split: prod.splits sum.splits)

subsection \<open>Scale Down\<close>

lemma scale_down_absent:
  assumes "getitem_decode E req ''port'' = Inr p" and "workers s p = None"
  shows "scale_down E req s = (Inl (KeyError p), s)"
  using assms by (simp add: scale_down_def scale_down_body_def monad_defs)

lemma scale_down_found:
  assumes "getitem_decode E req ''port'' = Inr p" and "workers s p = Some r"
  shows "scale_down E req s =
           ((case terminate E (length (trace s)) (worker r) of
               None \<Rightarrow> Inr (''scaled down'', 200) | Some e \<Rightarrow> Inl e),
            s\<lparr>trace := trace s @ [Terminate (worker r)]\<rparr>)"
  using assms by (simp add: scale_down_def scale_down_body_def monad_defs split: option.splits)

lemma decode_down_9000: "getitem_decode quiet_env down_9000 ''port'' = Inr ''9000''"
  by (simp add: request_defs down_9000_def quiet_env_def)

text \<open>
  C1.  Scale Down for the identifier \<open>9000\<close>, which was never registered: the lookup
  \<open>self.workers[port]\<close> raises \<open>KeyError\<close>, the handler re-raises it, and \<open>scale_down\<close>
  leaves with that exception instead of a failure result.  The store is as it was.
\<close>

theorem scale_down_unregistered_raises:
  "scale_down quiet_env down_9000 empty_state = (Inl (KeyError ''9000''), empty_state)"
  by (rule scale_down_absent [OF decode_down_9000]) (simp add: empty_state_def)

text \<open>
  C3, as the claim states it, fails: after a Scale Down for the registered identifier
  \<open>9000\<close> the process has been asked to terminate and the result is \<open>("scaled down",
  200)\<close>, but the record is still in the store.
\<close>

theorem scale_down_keeps_record:
  "fst (scale_down quiet_env down_9000 one_worker) = Inr (''scaled down'', 200) \<and>
   trace (snd (scale_down quiet_env down_9000 one_worker)) = [Terminate 0] \<and>
   workers (snd (scale_down quiet_env down_9000 one_worker)) ''9000''
     = Some \<lparr>worker = 0, fifo = ''/tmp/f''\<rparr>"
proof -
  have "workers one_worker ''9000'' = Some \<lparr>worker = 0, fifo = ''/tmp/f''\<rparr>"
    by (simp add: one_worker_def)
  from scale_down_found [OF decode_down_9000 this]
  show ?thesis by (simp add: one_worker_def quiet_env_def)
qed

text \<open>
  C3, amended.  When the request's port decodes to an identifier that is in the store and
  the termination request does not raise, \<open>scale_down\<close> asks the record's process handle
  to terminate (the only external call it makes), returns \<open>("scaled down", 200)\<close>, and
  leaves the store unchanged: the record stays.
\<close>

theorem scale_down_present:
  assumes "getitem_decode E req ''port'' = Inr p"
    and "workers s p = Some r"
    and "terminate E (length (trace s)) (worker r) = None"
  shows "scale_down E req s =
           (Inr (''scaled down'', 200), s\<lparr>trace := trace s @ [Terminate (worker r)]\<rparr>)"
  using assms by (simp add: scale_down_found)

theorem scale_down_present_witness:
  "scale_down quiet_env down_9000 one_worker =
     (Inr (''scaled down'', 200), one_worker\<lparr>trace := trace one_worker @ [Terminate 0]\<rparr>)"
proof -
  have r: "workers one_worker ''9000'' = Some \<lparr>worker = 0, fifo = ''/tmp/f''\<rparr>"
    by (simp add: one_worker_def)
  have t: "terminate quiet_env (length (trace one_worker))
             (worker \<lparr>worker = 0, fifo = ''/tmp/f''\<rparr>) = None"
    by (simp add: quiet_env_def)
  from scale_down_present [OF decode_down_9000 r t] show ?thesis by simp
qed

subsection \<open>The polling loop\<close>

lemma poll_step_nothing:
  assumes "nothing_at E f (length (trace s))"
  shows "poll E f (Suc r) s = poll E f r (s\<lparr>trace := trace s @ attempt f\<rparr>)"
  using assms
  by (auto simp: nothing_at_def lacks_sentinel_def monad_defs poll.simps split: sum.splits)

lemma poll_step_found:
  assumes "found_at E f (length (trace s))"
  shows "poll E f (Suc r) s =
           (Inr (Suc r), s\<lparr>trace := trace s @ last_attempt E f (length (trace s))\<rparr>)"
  using assms
  by (auto simp: found_at_def last_attempt_def has_sentinel_def lacks_sentinel_def monad_defs
      split: sum.splits)

declare poll.simps [simp del]

lemma poll_zero: "poll E f 0 s = (Inr 0, s)"
  by (simp add: poll.simps returnM_def)

lemma shift_attempt:
  "length (trace (s\<lparr>trace := trace s @ attempt f\<rparr>)) + 3 * i = length (trace s) + 3 * Suc i"
  by simp

lemma nothing_first:
  assumes "\<forall>i<Suc k. nothing_at E f (length (trace s) + 3 * i)"
  shows "nothing_at E f (length (trace s))"
  using assms [rule_format, of 0] by simp

lemma nothing_rest:
  assumes "\<forall>i<Suc k. nothing_at E f (length (trace s) + 3 * i)"
  shows "\<forall>i<k. nothing_at E f (length (trace (s\<lparr>trace := trace s @ attempt f\<rparr>)) + 3 * i)"
proof (intro allI impI)
  fix i assume "i < k"
  then have "nothing_at E f (length (trace s) + 3 * Suc i)"
    using assms [rule_format, of "Suc i"] by blast
  then show "nothing_at E f (length (trace (s\<lparr>trace := trace s @ attempt f\<rparr>)) + 3 * i)"
    by (simp only: shift_attempt)
qed

lemma poll_nothing:
  assumes "\<forall>i<r. nothing_at E f (length (trace s) + 3 * i)"
  shows "poll E f r s = (Inr 0, s\<lparr>trace := trace s @ concat (replicate r (attempt f))\<rparr>)"
  using assms
proof (induction r arbitrary: s)
  case 0
  show ?case by (simp add: poll_zero)
next
  case (Suc r)
  show ?case
    by (simp add: poll_step_nothing [OF nothing_first [OF Suc.prems]]
        Suc.IH [OF nothing_rest [OF Suc.prems]])
qed

lemma poll_found:
  assumes "k < r"
    and "\<forall>i<k. nothing_at E f (length (trace s) + 3 * i)"
    and "found_at E f (length (trace s) + 3 * k)"
  shows "poll E f r s =
           (Inr (r - k),
            s\<lparr>trace := trace s @ concat (replicate k (attempt f))
                         @ last_attempt E f (length (trace s) + 3 * k)\<rparr>)"
  using assms
proof (induction k arbitrary: r s)
  case 0
  then obtain r' where r: "r = Suc r'" by (cases r) auto
  from 0 have "found_at E f (length (trace s))" by simp
  from poll_step_found [OF this] show ?case by (simp add: r)
next
  case (Suc k)
  then obtain r' where r: "r = Suc r'" and k: "k < r'" by (cases r) auto
  let ?s = "s\<lparr>trace := trace s @ attempt f\<rparr>"
  have found: "found_at E f (length (trace ?s) + 3 * k)"
    using Suc.prems(3) by (simp only: shift_attempt)
  show ?case
    unfolding r poll_step_nothing [OF nothing_first [OF Suc.prems(2)]]
      Suc.IH [OF k nothing_rest [OF Suc.prems(2)] found] shift_attempt
    by simp
qed

lemma poll_count:
  "\<exists>new. snd (poll E f r s) = s\<lparr>trace := trace s @ new\<rparr> \<and>
         set new \<subseteq> set (attempt f) \<and> count_list new Sleep \<le> r"
proof (induction r arbitrary: s)
  case 0
  show ?case by (intro exI [of _ "[]"]) (simp add: poll_zero)
next
  case (Suc r)
  let ?s3 = "s\<lparr>trace := trace s @ attempt f\<rparr>"
  from Suc.IH [of ?s3] obtain new where
    new: "snd (poll E f r ?s3) = ?s3\<lparr>trace := trace ?s3 @ new\<rparr>"
      "set new \<subseteq> set (attempt f)" "count_list new Sleep \<le> r"
    by blast
  show ?case
  proof (cases "read_file E (Suc (length (trace s))) (f @ ''.out'')")
    case (Inl e)
    then show ?thesis
      by (intro exI [of _ "[Sleep, ReadFile (f @ ''.out'')]"]) (simp add: monad_defs poll.simps)
  next
    case out: (Inr c)
    show ?thesis
    proof (cases "sublist sentinel c")
      case True
      with out show ?thesis
        by (intro exI [of _ "[Sleep, ReadFile (f @ ''.out'')]"]) (simp add: monad_defs poll.simps)
    next
      case nc: False
      show ?thesis
      proof (cases "read_file E (Suc (Suc (length (trace s)))) (f @ ''.err'')")
        case (Inl e)
        with out nc show ?thesis
          by (intro exI [of _ "attempt f"]) (simp add: monad_defs poll.simps)
      next
        case err: (Inr d)
        show ?thesis
        proof (cases "sublist sentinel d")
          case True
          with out nc err show ?thesis
            by (intro exI [of _ "attempt f"]) (simp add: monad_defs poll.simps)
        next
          case False
          with out nc err new show ?thesis
            by (intro exI [of _ "attempt f @ new"]) (simp add: monad_defs poll.simps)
        qed
      qed
    qed
  qed
qed

subsection \<open>Scale Up\<close>

lemma extends_create_fifo:
  assumes "P (PathExists f)" "P (OsRemove f)" "P (OpenWrite f)"
  shows "extends P (create_fifo E f)"
  unfolding create_fifo_def by (intro extends_intros assms)

lemma extends_scale_up_prepare: "extends setup_action (scale_up_prepare E req svc svc_args)"
  unfolding scale_up_prepare_def Let_def
  by (intro extends_intros extends_create_fifo) simp_all

lemma extends_start_process: "extends setup_action (start_process E w)"
  unfolding start_process_def
  by (intro extends_intros) simp_all

lemma extends_scale_up_setup: "extends setup_action (scale_up_setup E req svc svc_args)"
  unfolding scale_up_setup_def
  by (intro extends_intros extends_scale_up_prepare)
     (simp add: extends_intros extends_start_process split: prod.splits)



lemma setup_action_count: "list_all setup_action new \<Longrightarrow> count_list new Sleep = 0"
  by (induction new) auto


lemma scale_up_setup_failed:
  assumes "scale_up_setup E req svc svc_args s = (Inl e, s1)"
  shows "scale_up E req svc svc_args s = (Inr (''scale up failed'', 500), s1)"
  using assms by (simp add: scale_up_def scale_up_body_def monad_defs)

lemma scale_up_setup_done:
  assumes "scale_up_setup E req svc svc_args s = (Inr (sock_name, port, f, p), s1)"
  shows "scale_up E req svc svc_args s =
           try_except (scale_up_started E sock_name port f p)
             (\<lambda>e. returnM (''scale up failed'', 500)) s1"
  using assms by (simp add: scale_up_def scale_up_body_def monad_defs)

lemma scale_up_started_poll:
  "scale_up_started E sock_name port f p s1 =
     (case poll E f 10
             (s1\<lparr>workers := (workers s1)(worker_id sock_name port \<mapsto> \<lparr>worker = p, fifo = f\<rparr>)\<rparr>) of
        (Inl e, s3) \<Rightarrow> (Inl e, s3)
      | (Inr retry, s3) \<Rightarrow>
          if retry = 0 then (Inl WorkerNotSpawned, s3) else (Inr (''scaled up'', 200), s3))"
  by (simp add: scale_up_started_def register_worker_def monad_defs
      split: prod.splits sum.splits)

lemma scale_up_exhausted:
  assumes su: "scale_up_setup E req svc svc_args s = (Inr (sock_name, port, f, p), s1)"
    and quiet: "\<forall>i<10. nothing_at E f (length (trace s1) + 3 * i)"
  shows "scale_up E req svc svc_args s =
           (Inr (''scale up failed'', 500),
            s1\<lparr>workers := (workers s1)(worker_id sock_name port \<mapsto> \<lparr>worker = p, fifo = f\<rparr>),
               trace := trace s1 @ concat (replicate 10 (attempt f))\<rparr>)"
proof -
  let ?s2 = "s1\<lparr>workers := (workers s1)(worker_id sock_name port \<mapsto> \<lparr>worker = p, fifo = f\<rparr>)\<rparr>"
  have len: "length (trace ?s2) = length (trace s1)" by simp
  have "\<forall>i<10. nothing_at E f (length (trace ?s2) + 3 * i)"
  proof (intro allI impI)
    fix i :: nat
    assume "i < 10"
    with quiet have "nothing_at E f (length (trace s1) + 3 * i)" by blast
    then show "nothing_at E f (length (trace ?s2) + 3 * i)" by (simp only: len)
  qed
  from poll_nothing [OF this] show ?thesis
    by (simp add: scale_up_setup_done [OF su] scale_up_started_poll try_except_def returnM_def)
qed

lemma scale_up_ready:
  assumes su: "scale_up_setup E req svc svc_args s = (Inr (sock_name, port, f, p), s1)"
    and k: "k < 10"
    and quiet: "\<forall>i<k. nothing_at E f (length (trace s1) + 3 * i)"
    and found: "found_at E f (length (trace s1) + 3 * k)"
  shows "scale_up E req svc svc_args s =
           (Inr (''scaled up'', 200),
            s1\<lparr>workers := (workers s1)(worker_id sock_name port \<mapsto> \<lparr>worker = p, fifo = f\<rparr>),
               trace := trace s1 @ concat (replicate k (attempt f))
                          @ last_attempt E f (length (trace s1) + 3 * k)\<rparr>)"
proof -
  let ?s2 = "s1\<lparr>workers := (workers s1)(worker_id sock_name port \<mapsto> \<lparr>worker = p, fifo = f\<rparr>)\<rparr>"
  have len: "length (trace ?s2) = length (trace s1)" by simp
  have n: "\<forall>i<k. nothing_at E f (length (trace ?s2) + 3 * i)"
  proof (intro allI impI)
    fix i :: nat
    assume "i < k"
    with quiet have "nothing_at E f (length (trace s1) + 3 * i)" by blast
    then show "nothing_at E f (length (trace ?s2) + 3 * i)" by (simp only: len)
  qed
  from found have f: "found_at E f (length (trace ?s2) + 3 * k)"
    by (simp only: len)
  from poll_found [OF k n f] k show ?thesis
    by (simp add: scale_up_setup_done [OF su] scale_up_started_poll try_except_def returnM_def)
qed

lemma scale_up_sleeps:
  "count_list (trace (snd (scale_up E req svc svc_args s))) Sleep
     \<le> count_list (trace s) Sleep + 10"
proof -
  obtain r s1 where su: "scale_up_setup E req svc svc_args s = (r, s1)"
    by (cases "scale_up_setup E req svc svc_args s")
  from extendsD [OF extends_scale_up_setup, of E req svc svc_args s] su
  obtain new1 where new1: "s1 = s\<lparr>trace := trace s @ new1\<rparr>" "list_all setup_action new1"
    by auto
  then have c1: "count_list (trace s1) Sleep = count_list (trace s) Sleep"
    by (simp add: setup_action_count)
  show ?thesis
  proof (cases r)
    case (Inl e)
    with su c1 show ?thesis by (simp add: scale_up_setup_failed)
  next
    case (Inr x)
    obtain sock_name port f p where x: "x = (sock_name, port, f, p)" by (cases x) auto
    let ?s2 = "s1\<lparr>workers := (workers s1)(worker_id sock_name port \<mapsto> \<lparr>worker = p, fifo = f\<rparr>)\<rparr>"
    from poll_count [of E f 10 ?s2] obtain new where
      new: "snd (poll E f 10 ?s2) = ?s2\<lparr>trace := trace ?s2 @ new\<rparr>" "count_list new Sleep \<le> 10"
      by blast
    obtain r3 s3 where p3: "poll E f 10 ?s2 = (r3, s3)"
      by (cases "poll E f 10 ?s2")
    with new(1) have s3: "trace s3 = trace s1 @ new" by simp
    have "snd (scale_up E req svc svc_args s) = s3"
      using su Inr x p3
      by (simp add: scale_up_setup_done scale_up_started_poll try_except_def returnM_def
          split: sum.splits)
    with s3 new(2) c1 show ?thesis by simp
  qed
qed

lemma setup_quiet_env:
  "scale_up_setup quiet_env up_9000 None None empty_state
     = (Inr ([], ''9000'', ''/tmp/f'', 5), started_state)"
  by (simp add: scale_up_setup_def scale_up_prepare_def start_process_def create_fifo_def
      fresh_handle_def monad_defs request_defs up_9000_def quiet_env_def empty_state_def
      started_state_def worker_9000_def Let_def)

lemma setup_ready_env:
  "scale_up_setup ready_env up_9000 None None empty_state
     = (Inr ([], ''9000'', ''/tmp/f'', 5), started_state)"
  by (simp add: scale_up_setup_def scale_up_prepare_def start_process_def create_fifo_def
      fresh_handle_def monad_defs request_defs up_9000_def quiet_env_def ready_env_def
      empty_state_def started_state_def worker_9000_def Let_def)

lemma quiet_env_nothing: "nothing_at quiet_env f n"
  by (simp add: nothing_at_def lacks_sentinel_def quiet_env_def sentinel_def)

lemma ready_env_nothing: "n < 12 \<Longrightarrow> nothing_at ready_env f n"
  by (simp add: nothing_at_def lacks_sentinel_def quiet_env_def ready_env_def sentinel_def)

lemma ready_env_found: "found_at ready_env ''/tmp/f'' 12"
  by (simp add: found_at_def has_sentinel_def quiet_env_def ready_env_def sentinel_def
      sublist_Cons_right)

text \<open>
  C4.  The readiness prober makes at most 10 polling attempts: whatever the request and
  the outside world, \<open>scale_up\<close> sleeps at most 10 times (and it always returns: the loop is
  a recursion on \<open>retry\<close>).  Once the process has been started:
  if each of the 10 attempts reads both files and finds the sentinel in neither, the
  calls after the start are exactly those 10 attempts and \<open>scale_up\<close> returns
  \<open>("scale up failed", 500)\<close>;
  if the first \<open>k < 10\<close> attempts find nothing and the next one finds the sentinel in either
  file, the polling stops with that attempt and \<open>scale_up\<close> returns \<open>("scaled up", 200)\<close>.
\<close>

theorem readiness_prober_ten_attempts:
  "count_list (trace (snd (scale_up E req svc svc_args s))) Sleep
     \<le> count_list (trace s) Sleep + 10 \<and>
   (scale_up_setup E req svc svc_args s = (Inr (sock_name, port, f, p), s1) \<longrightarrow>
     ((\<forall>i<10. nothing_at E f (length (trace s1) + 3 * i)) \<longrightarrow>
        scale_up E req svc svc_args s =
          (Inr (''scale up failed'', 500),
           s1\<lparr>workers := (workers s1)(worker_id sock_name port \<mapsto> \<lparr>worker = p, fifo = f\<rparr>),
              trace := trace s1 @ concat (replicate 10 (attempt f))\<rparr>)) \<and>
     (\<forall>k<10. (\<forall>i<k. nothing_at E f (length (trace s1) + 3 * i)) \<and>
              found_at E f (length (trace s1) + 3 * k) \<longrightarrow>
        scale_up E req svc svc_args s =
          (Inr (''scaled up'', 200),
           s1\<lparr>workers := (workers s1)(worker_id sock_name port \<mapsto> \<lparr>worker = p, fifo = f\<rparr>),
              trace := trace s1 @ concat (replicate k (attempt f))
                         @ last_attempt E f (length (trace s1) + 3 * k)\<rparr>)))"
proof (intro conjI impI allI)
  show "count_list (trace (snd (scale_up E req svc svc_args s))) Sleep
          \<le> count_list (trace s) Sleep + 10"
    by (rule scale_up_sleeps)
next
  assume "scale_up_setup E req svc svc_args s = (Inr (sock_name, port, f, p), s1)"
    and "\<forall>i<10. nothing_at E f (length (trace s1) + 3 * i)"
  then show "scale_up E req svc svc_args s =
          (Inr (''scale up failed'', 500),
           s1\<lparr>workers := (workers s1)(worker_id sock_name port \<mapsto> \<lparr>worker = p, fifo = f\<rparr>),
              trace := trace s1 @ concat (replicate 10 (attempt f))\<rparr>)"
    by (rule scale_up_exhausted)
next
  fix k
  assume "scale_up_setup E req svc svc_args s = (Inr (sock_name, port, f, p), s1)"
    and "k < 10"
    and "(\<forall>i<k. nothing_at E f (length (trace s1) + 3 * i)) \<and>
         found_at E f (length (trace s1) + 3 * k)"
  then show "scale_up E req svc svc_args s =
          (Inr (''scaled up'', 200),
           s1\<lparr>workers := (workers s1)(worker_id sock_name port \<mapsto> \<lparr>worker = p, fifo = f\<rparr>),
              trace := trace s1 @ concat (replicate k (attempt f))
                         @ last_attempt E f (length (trace s1) + 3 * k)\<rparr>)"
    by (intro scale_up_ready) auto
qed

theorem readiness_prober_witness:
  "scale_up quiet_env up_9000 None None empty_state =
     (Inr (''scale up failed'', 500),
      \<lparr>workers = [''9000'' \<mapsto> \<lparr>worker = 5, fifo = ''/tmp/f''\<rparr>],
       trace = trace started_state @ concat (replicate 10 (attempt ''/tmp/f''))\<rparr>) \<and>
   scale_up ready_env up_9000 None None empty_state =
     (Inr (''scaled up'', 200),
      \<lparr>workers = [''9000'' \<mapsto> \<lparr>worker = 5, fifo = ''/tmp/f''\<rparr>],
       trace = trace started_state @ attempt ''/tmp/f'' @ attempt ''/tmp/f''
                 @ [Sleep, ReadFile ''/tmp/f.out'']\<rparr>)"
proof -
  have len: "length (trace started_state) = 6"
    by (simp add: started_state_def)
  have q: "\<forall>i<10. nothing_at quiet_env ''/tmp/f'' (length (trace started_state) + 3 * i)"
    by (simp add: quiet_env_nothing)
  have n: "\<forall>i<2. nothing_at ready_env ''/tmp/f'' (length (trace started_state) + 3 * i)"
    by (simp add: ready_env_nothing len)
  have f: "found_at ready_env ''/tmp/f'' (length (trace started_state) + 3 * 2)"
    using ready_env_found by (simp add: len)
  have l: "last_attempt ready_env ''/tmp/f'' (length (trace started_state) + 3 * 2)
             = [Sleep, ReadFile ''/tmp/f.out'']"
    by (simp add: last_attempt_def has_sentinel_def len quiet_env_def ready_env_def sentinel_def
        sublist_Cons_right)
  have two: "(2::nat) < 10" by simp
  from readiness_prober_ten_attempts
         [of quiet_env up_9000 None None empty_state "[]" "''9000''" "''/tmp/f''" 5 started_state]
    setup_quiet_env q
  have a: "scale_up quiet_env up_9000 None None empty_state =
          (Inr (''scale up failed'', 500),
           started_state\<lparr>workers := (workers started_state)(worker_id [] ''9000''
                             \<mapsto> \<lparr>worker = 5, fifo = ''/tmp/f''\<rparr>),
              trace := trace started_state @ concat (replicate 10 (attempt ''/tmp/f''))\<rparr>)"
    by blast
  from readiness_prober_ten_attempts
         [of ready_env up_9000 None None empty_state "[]" "''9000''" "''/tmp/f''" 5 started_state]
    setup_ready_env n f two
  have b: "scale_up ready_env up_9000 None None empty_state =
          (Inr (''scaled up'', 200),
           started_state\<lparr>workers := (workers started_state)(worker_id [] ''9000''
                             \<mapsto> \<lparr>worker = 5, fifo = ''/tmp/f''\<rparr>),
              trace := trace started_state @ concat (replicate 2 (attempt ''/tmp/f''))
                         @ last_attempt ready_env ''/tmp/f'' (length (trace started_state) + 3 * 2)\<rparr>)"
    by blast
  show ?thesis
    unfolding a b l
    by (simp add: started_state_def worker_id_def numeral_2_eq_2)
qed







subsection \<open>Load\<close>

lemma load_model_body_decoded:
  assumes "getitem_decode E req ''modelPath'' = Inr dir"
    and "getitem_decode E req ''modelName'' = Inr name"
    and "get_handler E req = Inr handler"
    and "get_optional_int E req ''batchSize'' = Inr bs"
    and "get_optional_int E req ''gpu'' = Inr gpu"
  shows "load_model_body E req =
     bindM (act (get_model_loader E) GetModelLoader) (\<lambda>_.
     bindM (ask (\<lambda>n. loader_load E n name dir handler gpu bs False)
              (LoaderLoad name dir handler gpu bs False)) (\<lambda>svc.
     bindM (liftM (is_eager svc)) (\<lambda>eager.
     if eager then
       bindM (ask (\<lambda>n. loader_load E n name dir handler gpu bs True)
                (LoaderLoad name dir handler gpu bs True)) (\<lambda>svc'.
       returnM (Some svc', None, ''loaded model '' @ name, 200))
     else
       returnM (None, Some (name, dir, handler, gpu, bs), ''loaded model '' @ name, 200))))"
  using assms by (simp add: load_model_body_def bindM_liftM_Inr)

lemma is_eager_iff:
  "is_eager svc = Inr True \<longleftrightarrow>
     (\<exists>c m keys. svc_context svc = Some c \<and> manifest c = Some m \<and>
                 map_of m ''model'' = Some keys \<and> ''modelFile'' \<in> set keys)"
  by (auto simp: is_eager_def split: option.splits list.splits)

lemma decode_load_x:
  assumes "utf8_decode E = Some"
  shows "getitem_decode E load_x ''modelPath'' = Inr ''/m''"
    and "getitem_decode E load_x ''modelName'' = Inr ''x''"
    and "get_handler E load_x = Inr None"
    and "get_optional_int E load_x ''batchSize'' = Inr None"
    and "get_optional_int E load_x ''gpu'' = Inr None"
  using assms
  by (simp_all add: request_defs get_handler_def get_optional_int_def load_x_def)

lemma decode_load_x_no_handler:
  assumes "utf8_decode E = Some"
  shows "getitem_decode E load_x_no_handler ''modelPath'' = Inr ''/m''"
    and "getitem_decode E load_x_no_handler ''modelName'' = Inr ''x''"
  using assms
  by (simp_all add: request_defs load_x_no_handler_def)









lemma load_model_no_handler_key:
  assumes "getitem_decode E req ''modelPath'' = Inr dir"
    and "getitem_decode E req ''modelName'' = Inr name"
    and "req ''handler'' = None"
  shows "load_model E req s = (Inl (KeyError ''handler''), s)"
  using assms
  by (simp add: load_model_def load_model_body_def monad_defs get_handler_def getitem_def)




text \<open>
  C8, as the claim states it, fails for the handler: a Load request whose mapping has no
  \<open>handler\<close> key makes \<open>load_model\<close> raise \<open>KeyError\<close>, which its \<open>except MemoryError\<close> does
  not catch.
\<close>

theorem load_model_absent_handler_raises:
  "load_model quiet_env load_x_no_handler empty_state = (Inl (KeyError ''handler''), empty_state)"
  by (simp add: load_model_def load_model_body_def monad_defs request_defs get_handler_def
      load_x_no_handler_def quiet_env_def)

lemma get_handler_falsy:
  assumes "req ''handler'' = Some v" and "\<not> truthy v"
  shows "get_handler E req = Inr None"
  using assms by (simp add: get_handler_def getitem_def)

lemma get_optional_int_absent:
  assumes "req k = None"
  shows "get_optional_int E req k = Inr None"
  using assms by (simp add: get_optional_int_def)

lemma load_model_calls_loader:
  assumes "getitem_decode E req ''modelPath'' = Inr dir"
    and "getitem_decode E req ''modelName'' = Inr name"
    and "get_handler E req = Inr handler"
    and "get_optional_int E req ''batchSize'' = Inr bs"
    and "get_optional_int E req ''gpu'' = Inr gpu"
    and "get_model_loader E (length (trace s)) = None"
  shows "take (length (trace s) + 2) (trace (snd (load_model E req s)))
           = trace s @ [GetModelLoader, LoaderLoad name dir handler gpu bs False]"
  unfolding load_model_def load_model_body_decoded [OF assms(1-5)]
  using assms(6)
  by (auto simp: monad_defs split: sum.splits)

text \<open>
  C8, amended.  For a Load request whose model path and model name decode: the batch size
  and the GPU index may be absent from the mapping and are then \<open>None\<close>; the handler key
  must be present, and a handler value that is false (empty bytes) is \<open>None\<close>, while a
  mapping without the handler key makes \<open>load_model\<close> raise \<open>KeyError\<close>.  With a false
  handler and neither of the other two keys, the loader is called with \<open>None\<close> for all
  three.
\<close>

theorem load_model_optional_fields:
  assumes "getitem_decode E req ''modelPath'' = Inr dir"
    and "getitem_decode E req ''modelName'' = Inr name"
  shows
    "(req ''handler'' = None \<longrightarrow> load_model E req s = (Inl (KeyError ''handler''), s)) \<and>
     (\<forall>v. req ''handler'' = Some v \<and> \<not> truthy v \<longrightarrow> get_handler E req = Inr None) \<and>
     (req ''batchSize'' = None \<longrightarrow> get_optional_int E req ''batchSize'' = Inr None) \<and>
     (req ''gpu'' = None \<longrightarrow> get_optional_int E req ''gpu'' = Inr None) \<and>
     (\<forall>v. req ''handler'' = Some v \<and> \<not> truthy v \<and> req ''batchSize'' = None \<and>
          req ''gpu'' = None \<and> get_model_loader E (length (trace s)) = None \<longrightarrow>
          take (length (trace s) + 2) (trace (snd (load_model E req s)))
            = trace s @ [GetModelLoader, LoaderLoad name dir None None None False])"
proof (intro conjI impI allI)
  assume "req ''handler'' = None"
  with assms show "load_model E req s = (Inl (KeyError ''handler''), s)"
    by (rule load_model_no_handler_key)
next
  fix v assume "req ''handler'' = Some v \<and> \<not> truthy v"
  then show "get_handler E req = Inr None"
    by (auto intro: get_handler_falsy)
next
  assume "req ''batchSize'' = None"
  then show "get_optional_int E req ''batchSize'' = Inr None"
    by (rule get_optional_int_absent)
next
  assume "req ''gpu'' = None"
  then show "get_optional_int E req ''gpu'' = Inr None"
    by (rule get_optional_int_absent)
next
  fix v
  assume a: "req ''handler'' = Some v \<and> \<not> truthy v \<and> req ''batchSize'' = None \<and>
          req ''gpu'' = None \<and> get_model_loader E (length (trace s)) = None"
  then have h: "get_handler E req = Inr None"
    by (auto intro: get_handler_falsy)
  from a have b: "get_optional_int E req ''batchSize'' = Inr None"
    and g: "get_optional_int E req ''gpu'' = Inr None"
    by (simp_all add: get_optional_int_absent)
  from a have l: "get_model_loader E (length (trace s)) = None" by simp
  show "take (length (trace s) + 2) (trace (snd (load_model E req s)))
            = trace s @ [GetModelLoader, LoaderLoad name dir None None None False]"
    by (rule load_model_calls_loader [OF assms h b g l])
qed

theorem load_model_optional_fields_witness:
  "load_model quiet_env load_x_no_handler empty_state = (Inl (KeyError ''handler''), empty_state) \<and>
   get_handler quiet_env load_x = Inr None \<and>
   get_optional_int quiet_env load_x ''batchSize'' = Inr None \<and>
   get_optional_int quiet_env load_x ''gpu'' = Inr None \<and>
   take 2 (trace (snd (load_model quiet_env load_x empty_state)))
     = [GetModelLoader, LoaderLoad ''x'' ''/m'' None None None False]"
proof -
  have u: "utf8_decode quiet_env = Some" by (simp add: quiet_env_def)
  have n: "load_x_no_handler ''handler'' = None" by (simp add: load_x_no_handler_def)
  have x: "load_x ''handler'' = Some (PyBytes [])" "\<not> truthy (PyBytes [])"
    "load_x ''batchSize'' = None" "load_x ''gpu'' = None"
    "get_model_loader quiet_env (length (trace empty_state)) = None"
    by (simp_all add: load_x_def truthy_def quiet_env_def)
  from load_model_optional_fields [OF decode_load_x_no_handler [OF u], of empty_state] n
  have a: "load_model quiet_env load_x_no_handler empty_state
             = (Inl (KeyError ''handler''), empty_state)"
    by blast
  from load_model_optional_fields [OF decode_load_x(1,2) [OF u], of empty_state] x
  have b: "get_handler quiet_env load_x = Inr None"
    "get_optional_int quiet_env load_x ''batchSize'' = Inr None"
    "get_optional_int quiet_env load_x ''gpu'' = Inr None"
    "take (length (trace empty_state) + 2) (trace (snd (load_model quiet_env load_x empty_state)))
       = trace empty_state @ [GetModelLoader, LoaderLoad ''x'' ''/m'' None None None False]"
    by blast+
  from a b show ?thesis by (simp add: empty_state_def numeral_2_eq_2)
qed

subsection \<open>Which exceptions leave the operations\<close>

text \<open>
  C6, as the claim states it, fails for Load: with all fields of the request in place, an
  \<open>OSError\<close> of the model loader leaves \<open>load_model\<close>.
\<close>

theorem load_model_lets_exception_escape:
  "fst (load_model broken_loader_env load_x empty_state) = Inl OSError"
proof -
  have u: "utf8_decode broken_loader_env = Some"
    by (simp add: broken_loader_env_def quiet_env_def)
  show ?thesis
    unfolding load_model_def load_model_body_decoded [OF decode_load_x [OF u]]
    by (simp add: monad_defs broken_loader_env_def quiet_env_def empty_state_def)
qed

lemma scale_up_body_result:
  assumes "scale_up_body E req svc svc_args s = (Inr r, s')"
  shows "r = (''scaled up'', 200)"
proof -
  from bindM_InrD [OF assms [unfolded scale_up_body_def]]
  obtain x s1 where
    "(case x of (sock_name, port, fifo_path, p) \<Rightarrow> scale_up_started E sock_name port fifo_path p) s1
       = (Inr r, s')"
    by blast
  then show ?thesis
    by (cases x) (auto simp: scale_up_started_poll split: prod.splits sum.splits if_splits)
qed

lemma scale_up_two_results:
  "fst (scale_up E req svc svc_args s) = Inr (''scaled up'', 200) \<or>
   fst (scale_up E req svc svc_args s) = Inr (''scale up failed'', 500)"
proof (cases "scale_up_body E req svc svc_args s")
  case (Pair r s')
  show ?thesis
  proof (cases r)
    case (Inl e)
    with Pair show ?thesis by (simp add: scale_up_def try_except_def returnM_def)
  next
    case (Inr x)
    with Pair scale_up_body_result [of E req svc svc_args s x s'] show ?thesis
      by (simp add: scale_up_def try_except_def)
  qed
qed

lemma load_model_body_broken:
  "fst (load_model_body broken_loader_env load_x empty_state) = Inl OSError"
proof -
  have u: "utf8_decode broken_loader_env = Some"
    by (simp add: broken_loader_env_def quiet_env_def)
  show ?thesis
    unfolding load_model_body_decoded [OF decode_load_x [OF u]]
    by (simp add: monad_defs broken_loader_env_def quiet_env_def empty_state_def)
qed

lemma load_model_body_oom:
  "fst (load_model_body oom_env load_x empty_state) = Inl MemoryError"
proof -
  have u: "utf8_decode oom_env = Some"
    by (simp add: oom_env_def quiet_env_def)
  show ?thesis
    unfolding load_model_body_decoded [OF decode_load_x [OF u]]
    by (simp add: monad_defs oom_env_def quiet_env_def empty_state_def)
qed

lemma scale_up_body_quiet:
  "fst (scale_up_body quiet_env up_9000 None None empty_state) = Inl WorkerNotSpawned"
proof -
  have q: "\<forall>i<10. nothing_at quiet_env ''/tmp/f''
             (length (trace (started_state\<lparr>workers := (workers started_state)
                (worker_id [] ''9000'' \<mapsto> \<lparr>worker = 5, fifo = ''/tmp/f''\<rparr>)\<rparr>)) + 3 * i)"
    by (simp add: quiet_env_nothing)
  show ?thesis
    by (simp add: scale_up_body_def bindM_def setup_quiet_env scale_up_started_poll
        poll_nothing [OF q])
qed

text \<open>
  C6, amended.  No exception leaves \<open>scale_up\<close>: it returns \<open>("scaled up", 200)\<close> or \<open>("scale
  up failed", 500)\<close>, and every exception raised inside its \<open>try\<close> becomes the latter.
  \<open>load_model\<close> converts \<open>MemoryError\<close>, and only \<open>MemoryError\<close>, to \<open>(None, None, "System out
  of memory", 507)\<close>; every other exception raised inside its \<open>try\<close> leaves it.
\<close>

theorem command_exceptions:
  "(fst (scale_up E req svc svc_args s) = Inr (''scaled up'', 200) \<or>
    fst (scale_up E req svc svc_args s) = Inr (''scale up failed'', 500)) \<and>
   (\<forall>e. fst (scale_up_body E req svc svc_args s) = Inl e \<longrightarrow>
      fst (scale_up E req svc svc_args s) = Inr (''scale up failed'', 500)) \<and>
   (fst (load_model_body E req' s) = Inl MemoryError \<longrightarrow>
      fst (load_model E req' s) = Inr (None, None, ''System out of memory'', 507)) \<and>
   (\<forall>e. e \<noteq> MemoryError \<and> fst (load_model_body E req' s) = Inl e \<longrightarrow>
      fst (load_model E req' s) = Inl e) \<and>
   fst (load_model E req' s) \<noteq> Inl MemoryError"
proof (intro conjI allI impI)
  show "fst (scale_up E req svc svc_args s) = Inr (''scaled up'', 200) \<or>
        fst (scale_up E req svc svc_args s) = Inr (''scale up failed'', 500)"
    by (rule scale_up_two_results)
next
  fix e assume "fst (scale_up_body E req svc svc_args s) = Inl e"
  then show "fst (scale_up E req svc svc_args s) = Inr (''scale up failed'', 500)"
    by (cases "scale_up_body E req svc svc_args s")
       (simp add: scale_up_def try_except_def returnM_def)
next
  assume "fst (load_model_body E req' s) = Inl MemoryError"
  then show "fst (load_model E req' s) = Inr (None, None, ''System out of memory'', 507)"
    by (cases "load_model_body E req' s")
       (simp add: load_model_def try_except_only_def returnM_def)
next
  fix e assume "e \<noteq> MemoryError \<and> fst (load_model_body E req' s) = Inl e"
  then show "fst (load_model E req' s) = Inl e"
    by (cases "load_model_body E req' s")
       (simp add: load_model_def try_except_only_def returnM_def)
next
  show "fst (load_model E req' s) \<noteq> Inl MemoryError"
    by (cases "load_model_body E req' s")
       (auto simp: load_model_def try_except_only_def returnM_def split: sum.splits)
qed

theorem command_exceptions_witness:
  "fst (scale_up quiet_env up_9000 None None empty_state) = Inr (''scale up failed'', 500) \<and>
   fst (load_model oom_env load_x empty_state) = Inr (None, None, ''System out of memory'', 507) \<and>
   fst (load_model broken_loader_env load_x empty_state) = Inl OSError"
  using command_exceptions [of quiet_env up_9000 None None empty_state]
    command_exceptions [of oom_env _ _ _ empty_state load_x]
    command_exceptions [of broken_loader_env _ _ _ empty_state load_x]
    scale_up_body_quiet load_model_body_oom load_model_body_broken
  by blast

subsection \<open>The connection loop\<close>

lemma emit_if_metrics_None: "emit_if_metrics E None = returnM ()"
  by (simp add: emit_if_metrics_def)

lemma iteration_benchmark:
  assumes "BENCHMARK g"
  shows "iteration E g (None, None) =
     bindM (pr_call E g ProfDisable) (\<lambda>_.
     bindM (pr_call E g ProfDump) (\<lambda>_.
     bindM (ask (retrieve_msg E) RetrieveMsg) (\<lambda>x.
     bindM (pr_call E g ProfEnable) (\<lambda>_.
     returnM (None, None)))))"
  using assms
  by (simp add: iteration_def dispatch_def bindM_assoc bindM_returnM emit_if_metrics_None
      case_prod_unfold)

lemma extends_pr_call: "P a \<Longrightarrow> extends P (pr_call E g a)"
  by (simp add: pr_call_def extends_act extends_raiseM)

lemma extends_iteration_benchmark:
  assumes "BENCHMARK g"
  shows "extends idle_action (iteration E g (None, None))"
  unfolding iteration_benchmark [OF assms]
  by (intro extends_intros extends_pr_call) simp_all

lemma iteration_benchmark_result:
  assumes "BENCHMARK g" and "iteration E g (None, None) s = (Inr loc, s')"
  shows "loc = (None, None)"
  using assms(2) unfolding iteration_benchmark [OF assms(1)]
  by (auto simp: bindM_def returnM_def split: prod.splits sum.splits)

lemma serve_benchmark:
  assumes "BENCHMARK g"
  shows "\<exists>new. snd (serve n E g (None, None) s) = s\<lparr>trace := trace s @ new\<rparr> \<and>
               list_all idle_action new"
proof (induction n arbitrary: s)
  case 0
  show ?case by (intro exI [of _ "[]"]) simp
next
  case (Suc n)
  obtain r s1 where it: "iteration E g (None, None) s = (r, s1)"
    by (cases "iteration E g (None, None) s")
  from extendsD [OF extends_iteration_benchmark [OF assms], of E s] it
  obtain new1 where new1: "s1 = s\<lparr>trace := trace s @ new1\<rparr>" "list_all idle_action new1"
    by auto
  show ?case
  proof (cases r)
    case (Inl e)
    with it new1 show ?thesis by (intro exI [of _ new1]) simp
  next
    case (Inr loc)
    with it iteration_benchmark_result [OF assms] have loc: "loc = (None, None)" by blast
    from Suc.IH [of s1] obtain new2 where
      new2: "snd (serve n E g (None, None) s1) = s1\<lparr>trace := trace s1 @ new2\<rparr>"
        "list_all idle_action new2"
      by blast
    with it Inr loc new1 show ?thesis
      by (intro exI [of _ "new1 @ new2"]) simp
  qed
qed

lemma handle_connection_benchmark:
  assumes "BENCHMARK g"
  shows "\<exists>new. snd (handle_connection n E g s) = s\<lparr>trace := trace s @ new\<rparr> \<and>
               list_all idle_action new"
proof (cases "set_start_method E (length (trace s))")
  case (Some e)
  then show ?thesis
    by (intro exI [of _ "[SetStartMethod]"]) (simp add: handle_connection_def act_def)
next
  case None
  let ?s1 = "s\<lparr>trace := trace s @ [SetStartMethod]\<rparr>"
  from serve_benchmark [OF assms, of n E ?s1] obtain new where
    "snd (serve n E g (None, None) ?s1) = ?s1\<lparr>trace := trace ?s1 @ new\<rparr>"
    "list_all idle_action new"
    by blast
  with None show ?thesis
    by (intro exI [of _ "SetStartMethod # new"]) (simp add: handle_connection_def act_def)
qed

lemma iteration_skips:
  assumes "BENCHMARK g" and "pr_bound g"
    and "\<forall>k a. profiler E k a = None"
    and "\<forall>k. \<exists>c m. retrieve_msg E k = Inr (c, m)"
  shows "iteration E g (None, None) s = (Inr (None, None), s\<lparr>trace := trace s @ skipped\<rparr>)"
proof -
  from assms(4) obtain c m where "retrieve_msg E (Suc (Suc (length (trace s)))) = Inr (c, m)"
    by blast
  with assms(2,3) show ?thesis
    unfolding iteration_benchmark [OF assms(1)]
    by (simp add: pr_call_def monad_defs)
qed

lemma serve_skips:
  assumes "BENCHMARK g" and "pr_bound g"
    and "\<forall>k a. profiler E k a = None"
    and "\<forall>k. \<exists>c m. retrieve_msg E k = Inr (c, m)"
  shows "serve n E g (None, None) s = (None, s\<lparr>trace := trace s @ concat (replicate n skipped)\<rparr>)"
proof (induction n arbitrary: s)
  case 0
  show ?case by simp
next
  case (Suc n)
  show ?case
    by (simp add: iteration_skips [OF assms] Suc.IH)
qed

text \<open>
  C10.  With the benchmark flag set, \<open>handle_connection\<close> dispatches nothing.  However many
  passes the loop makes and whatever the outside world does, the state changes only by
  calls of \<open>idle_action\<close> appended to the trace: the start-method call, the profiler calls
  and the reads of messages; so no operation is invoked, no response is sent and the store
  is untouched.  And when the profiler is bound and does not fail, every message that
  arrives, whatever its tag, is passed over without any exception: after \<open>n\<close> messages the
  loop is still running and has made exactly the calls \<open>skipped\<close> for each.
\<close>

theorem benchmark_skips_dispatch:
  assumes "BENCHMARK g"
  shows "(\<exists>new. snd (handle_connection n E g s) = s\<lparr>trace := trace s @ new\<rparr> \<and>
                list_all idle_action new) \<and>
         (pr_bound g \<and> set_start_method E (length (trace s)) = None \<and>
          (\<forall>k a. profiler E k a = None) \<and> (\<forall>k. \<exists>c m. retrieve_msg E k = Inr (c, m)) \<longrightarrow>
            handle_connection n E g s =
              (None, s\<lparr>trace := trace s @ SetStartMethod # concat (replicate n skipped)\<rparr>))"
proof (intro conjI impI)
  show "\<exists>new. snd (handle_connection n E g s) = s\<lparr>trace := trace s @ new\<rparr> \<and>
              list_all idle_action new"
    by (rule handle_connection_benchmark [OF assms])
next
  assume a: "pr_bound g \<and> set_start_method E (length (trace s)) = None \<and>
          (\<forall>k a. profiler E k a = None) \<and> (\<forall>k. \<exists>c m. retrieve_msg E k = Inr (c, m))"
  then have "serve n E g (None, None) (s\<lparr>trace := trace s @ [SetStartMethod]\<rparr>) =
      (None, s\<lparr>trace := trace s @ [SetStartMethod]\<rparr>
                \<lparr>trace := trace (s\<lparr>trace := trace s @ [SetStartMethod]\<rparr>)
                             @ concat (replicate n skipped)\<rparr>)"
    by (intro serve_skips assms) blast+
  with a show "handle_connection n E g s =
              (None, s\<lparr>trace := trace s @ SetStartMethod # concat (replicate n skipped)\<rparr>)"
    by (simp add: handle_connection_def act_def)
qed

theorem benchmark_skips_dispatch_witness:
  "handle_connection 3 unknown_env bench_globals empty_state =
     (None, \<lparr>workers = Map.empty,
             trace = SetStartMethod # skipped @ skipped @ skipped\<rparr>) \<and>
   handle_connection 2 down_env bench_globals empty_state =
     (None, \<lparr>workers = Map.empty, trace = SetStartMethod # skipped @ skipped\<rparr>)"
proof -
  have b: "BENCHMARK bench_globals" "pr_bound bench_globals"
    by (simp_all add: bench_globals_def)
  have u: "set_start_method unknown_env (length (trace empty_state)) = None"
    "\<forall>k a. profiler unknown_env k a = None"
    "\<forall>k. \<exists>c m. retrieve_msg unknown_env k = Inr (c, m)"
    by (simp_all add: unknown_env_def quiet_env_def)
  have d: "set_start_method down_env (length (trace empty_state)) = None"
    "\<forall>k a. profiler down_env k a = None"
    "\<forall>k. \<exists>c m. retrieve_msg down_env k = Inr (c, m)"
    by (simp_all add: down_env_def quiet_env_def)
  from benchmark_skips_dispatch [OF b(1), of 3 unknown_env empty_state] b(2) u
  have 1: "handle_connection 3 unknown_env bench_globals empty_state =
     (None, empty_state\<lparr>trace := trace empty_state @ SetStartMethod # concat (replicate 3 skipped)\<rparr>)"
    by blast
  from benchmark_skips_dispatch [OF b(1), of 2 down_env empty_state] b(2) d
  have 2: "handle_connection 2 down_env bench_globals empty_state =
     (None, empty_state\<lparr>trace := trace empty_state @ SetStartMethod # concat (replicate 2 skipped)\<rparr>)"
    by blast
  show ?thesis
    unfolding 1 2 by (simp add: empty_state_def numeral_2_eq_2 numeral_3_eq_3)
qed

text \<open>
  C7.  With the benchmark flag set and the profiler bound, a connection delivers a message
  with the unknown tag \<open>X\<close>: the \<open>else: raise ValueError\<close> hangs on the chain that starts with
  \<open>if BENCHMARK: pr.enable()\<close>, so the message is passed over and the pass through the loop
  ends without an exception.
\<close>

theorem unknown_tag_skipped_under_benchmark:
  "iteration unknown_env bench_globals (None, None) empty_state =
     (Inr (None, None), \<lparr>workers = Map.empty, trace = skipped\<rparr>)"
  by (simp add: iteration_def dispatch_def pr_call_def emit_if_metrics_def monad_defs
      unknown_env_def quiet_env_def bench_globals_def empty_state_def)

lemma iteration_unknown:
  assumes "\<not> BENCHMARK g" and "cmd \<noteq> ''L''" and "cmd \<noteq> ''U''" and "cmd \<noteq> ''D''"
    and "retrieve_msg E (length (trace s)) = Inr (cmd, msg)"
  shows "iteration E g loc s = (Inl (UnknownCommand cmd), s\<lparr>trace := trace s @ [RetrieveMsg]\<rparr>)"
  using assms by (simp add: iteration_def dispatch_def monad_defs)

text \<open>
  When the benchmark flag is not set and the message read has a tag other than \<open>L\<close>, \<open>U\<close>
  and \<open>D\<close>, the pass through the loop raises the unknown-command error for that tag right
  after the read, and this exception leaves the loop.
\<close>

theorem unknown_command_raises:
  assumes "\<not> BENCHMARK g" and "cmd \<noteq> ''L''" and "cmd \<noteq> ''U''" and "cmd \<noteq> ''D''"
    and "retrieve_msg E (length (trace s)) = Inr (cmd, msg)"
  shows "iteration E g loc s = (Inl (UnknownCommand cmd), s\<lparr>trace := trace s @ [RetrieveMsg]\<rparr>) \<and>
         serve (Suc n) E g loc s = (Some (UnknownCommand cmd), s\<lparr>trace := trace s @ [RetrieveMsg]\<rparr>)"
  using iteration_unknown [OF assms] by simp

theorem unknown_command_raises_witness:
  "serve 4 unknown_env plain_globals (None, None) empty_state =
     (Some (UnknownCommand ''X''), \<lparr>workers = Map.empty, trace = [RetrieveMsg]\<rparr>)"
proof -
  have g: "\<not> BENCHMARK plain_globals" by (simp add: plain_globals_def)
  have c: "''X'' \<noteq> ''L''" "''X'' \<noteq> ''U''" "''X'' \<noteq> ''D''" by simp_all
  have r: "retrieve_msg unknown_env (length (trace empty_state)) = Inr (''X'', Map.empty)"
    by (simp add: unknown_env_def)
  from unknown_command_raises [OF g c r, of "(None, None)" 3]
  show ?thesis by (simp add: empty_state_def eval_nat_numeral)
qed

text \<open>
  Scale Down in the loop, with the benchmark flag not set: when \<open>scale_down\<close> returns,
  whatever it returns, the response sent is the encoding of \<open>(200, "DONE")\<close>; when it
  raises, nothing is sent.
\<close>

lemma dispatch_scale_down:
  assumes "\<not> BENCHMARK g"
  shows "dispatch E g ''D'' msg loc =
     bindM (scale_down E msg) (\<lambda>r.
     bindM (send_resp E (create_scale_model_response E 200 ''DONE'')) (\<lambda>_.
     returnM loc))"
  using assms by (simp add: dispatch_def case_prod_unfold)

lemma dispatch_scale_down_returns:
  assumes "\<not> BENCHMARK g" and "scale_down E msg s = (Inr r, s1)"
  shows "dispatch E g ''D'' msg loc s =
           ((case send E (length (trace s1)) (create_scale_model_response E 200 ''DONE'') of
               None \<Rightarrow> Inr loc | Some e \<Rightarrow> Inl e),
            s1\<lparr>trace := trace s1 @ [Send (create_scale_model_response E 200 ''DONE'')]\<rparr>)"
  using assms(2) unfolding dispatch_scale_down [OF assms(1)]
  by (simp add: send_resp_def monad_defs split: option.splits)

lemma dispatch_scale_down_raises:
  assumes "\<not> BENCHMARK g" and "scale_down E msg s = (Inl e, s1)"
  shows "dispatch E g ''D'' msg loc s = (Inl e, s1)"
  using assms(2) unfolding dispatch_scale_down [OF assms(1)]
  by (simp add: monad_defs)

text \<open>
  C2.  A connection delivers a Scale Down for the identifier \<open>9000\<close>, which was never
  registered: \<open>scale_down\<close> raises \<open>KeyError\<close>, the loop is left with that exception, and
  the only external calls made are the start-method call and the read of the message: no
  response is sent.
\<close>

theorem scale_down_unregistered_sends_nothing:
  "handle_connection 1 down_env plain_globals empty_state =
     (Some (KeyError ''9000''), \<lparr>workers = Map.empty, trace = [SetStartMethod, RetrieveMsg]\<rparr>)"
proof -
  have d: "getitem_decode down_env down_9000 ''port'' = Inr ''9000''"
    by (simp add: request_defs down_9000_def down_env_def quiet_env_def)
  have g: "\<not> BENCHMARK plain_globals" by (simp add: plain_globals_def)
  let ?s = "\<lparr>workers = Map.empty, trace = [SetStartMethod, RetrieveMsg]\<rparr>"
  have "scale_down down_env down_9000 ?s = (Inl (KeyError ''9000''), ?s)"
    by (rule scale_down_absent [OF d]) simp
  from dispatch_scale_down_raises [OF g this]
  show ?thesis
    by (simp add: handle_connection_def iteration_def monad_defs plain_globals_def
        down_env_def quiet_env_def empty_state_def)
qed

end
